theory Spec2Isabelle
  imports Complex_Main "HOL-Library.Sublist" "HOL-Library.AList"
begin

section \<open>Python values used by the two scripts\<close>

subsection \<open>Strings\<close>

text \<open>
  Python's \<^verbatim>\<open>sub in key\<close> on two strings: \<open>sub\<close> occurs in \<open>key\<close> as a contiguous
  run of characters.
\<close>

fun str_in :: "string \<Rightarrow> string \<Rightarrow> bool" where
  "str_in sub [] = (sub = [])"
| "str_in sub (c # cs) = (prefix sub (c # cs) \<or> str_in sub cs)"

text \<open>Non-ASCII output characters of the source, as their UTF-8 bytes, and the newline.\<close>

definition check_mark :: string where
  "check_mark = [CHR 0xE2, CHR 0x9C, CHR 0x93]"

definition warning_sign :: string where
  "warning_sign = [CHR 0xE2, CHR 0x9A, CHR 0xA0, CHR 0xEF, CHR 0xB8, CHR 0x8F]"

definition newline :: string where
  "newline = [CHR 0x0A]"

text \<open>\<^verbatim>\<open>str(n)\<close> for a non-negative Python int, and for a list or \<^verbatim>\<open>torch.Size\<close> of them.\<close>

fun str_nat :: "nat \<Rightarrow> string" where
  "str_nat n = (if n < 10 then [char_of (48 + n)] else str_nat (n div 10) @ [char_of (48 + n mod 10)])"

declare str_nat.simps [simp del]

fun join_comma :: "string list \<Rightarrow> string" where
  "join_comma [] = []"
| "join_comma [s] = s"
| "join_comma (s # t # ss) = s @ '', '' @ join_comma (t # ss)"

definition str_list :: "nat list \<Rightarrow> string" where
  "str_list ds = ''['' @ join_comma (map str_nat ds) @ '']''"

definition str_size :: "nat list \<Rightarrow> string" where
  "str_size ds = ''torch.Size('' @ str_list ds @ '')''"

text \<open>A variable that holds \<^verbatim>\<open>None\<close> or an int, its \<^verbatim>\<open>str\<close> and its truth value.\<close>

definition str_opt :: "nat option \<Rightarrow> string" where
  "str_opt v = (case v of None \<Rightarrow> ''None'' | Some n \<Rightarrow> str_nat n)"

definition truthy :: "nat option \<Rightarrow> bool" where
  "truthy v = (case v of None \<Rightarrow> False | Some n \<Rightarrow> n \<noteq> 0)"

subsection \<open>Exceptions\<close>

text \<open>
  Every exception carries the text \<^verbatim>\<open>str(e)\<close> gives. \<open>LoadError\<close> is whatever
  \<^verbatim>\<open>torch.load\<close> or \<^verbatim>\<open>load_state_dict\<close> raised.
\<close>

datatype py_error =
    AttributeError string
  | IndexError string
  | KeyError string
  | ValueError string
  | RuntimeError string
  | LoadError string

fun str_error :: "py_error \<Rightarrow> string" where
  "str_error (AttributeError m) = m"
| "str_error (IndexError m) = m"
| "str_error (KeyError m) = m"
| "str_error (ValueError m) = m"
| "str_error (RuntimeError m) = m"
| "str_error (LoadError m) = m"

datatype 'r outcome = Return 'r | Exit nat | Raise py_error

datatype event = Print string | PrintExc py_error

subsection \<open>Tensors, state dicts, modules\<close>

text \<open>
  A tensor is its shape and its elements in row-major order; the element type is left
  open, the scripts never compute with an element. A well-formed tensor holds as many
  elements as its shape says.
\<close>

record 'a tensor =
  shape :: "nat list"
  elems :: "'a list"

definition wf_tensor :: "'a tensor \<Rightarrow> bool" where
  "wf_tensor t = (length (elems t) = prod_list (shape t))"

text \<open>
  A value of a loaded dict is a tensor or something else; \<open>NonTensor m\<close> has no
  attribute \<^verbatim>\<open>shape\<close>, and \<open>m\<close> is the text of the AttributeError Python raises.
\<close>

datatype 'a pyvalue = Tensor "'a tensor" | NonTensor string

text \<open>A dict in insertion order; a well-formed one has distinct keys.\<close>

type_synonym 'a state_dict = "(string \<times> 'a pyvalue) list"

datatype layer = Linear nat nat | ReLU | Dropout real | Sigmoid

record 'a nn_module =
  mlp :: "layer list"
  named_parameters :: "(string \<times> 'a tensor) list"
  training :: bool

text \<open>
  What \<^verbatim>\<open>torch.load\<close> can return: a module (with the qualified name of its class, the
  class's \<^verbatim>\<open>__name__\<close> and its \<^verbatim>\<open>str\<close>), a dict (with the qualified name of its type,
  \<^verbatim>\<open>dict\<close> or \<^verbatim>\<open>collections.OrderedDict\<close>), or another object (qualified type name,
  type name, \<^verbatim>\<open>str\<close>), which is taken to have no \<^verbatim>\<open>keys\<close> method.
\<close>

datatype 'a pyobj =
    Module string string string "'a nn_module"
  | Dict string "'a state_dict"
  | Unknown string string string

definition quote :: string where
  "quote = [CHR 0x27]"

definition str_type :: "'a pyobj \<Rightarrow> string" where
  "str_type obj = ''<class '' @ quote @
     (case obj of Module q _ _ _ \<Rightarrow> q | Dict q _ \<Rightarrow> q | Unknown q _ _ \<Rightarrow> q) @ quote @ ''>''"

definition no_attribute :: "string \<Rightarrow> string \<Rightarrow> py_error" where
  "no_attribute ty attr =
     AttributeError (quote @ ty @ quote @ '' object has no attribute '' @ quote @ attr @ quote)"

text \<open>\<^verbatim>\<open>state_dict[key]\<close>, \<^verbatim>\<open>value.shape\<close>, \<^verbatim>\<open>shape[i]\<close> and their chain.\<close>

definition getitem :: "'a state_dict \<Rightarrow> string \<Rightarrow> py_error + 'a pyvalue" where
  "getitem d k = (case map_of d k of None \<Rightarrow> Inl (KeyError (quote @ k @ quote)) | Some v \<Rightarrow> Inr v)"

definition shape_of :: "'a pyvalue \<Rightarrow> py_error + nat list" where
  "shape_of v = (case v of Tensor t \<Rightarrow> Inr (shape t) | NonTensor m \<Rightarrow> Inl (AttributeError m))"

definition index :: "nat list \<Rightarrow> nat \<Rightarrow> py_error + nat" where
  "index s i = (if i < length s then Inr (s ! i) else Inl (IndexError ''tuple index out of range''))"

definition shape_at :: "'a state_dict \<Rightarrow> string \<Rightarrow> nat \<Rightarrow> py_error + nat" where
  "shape_at d k i =
     (case getitem d k of Inl e \<Rightarrow> Inl e
      | Inr v \<Rightarrow> (case shape_of v of Inl e \<Rightarrow> Inl e | Inr s \<Rightarrow> index s i))"

section \<open>export_mlp_weights.py\<close>

subsection \<open>get_model: inferring the two sizes (lines 39 to 45)\<close>

text \<open>
  One pass of the loop body on \<open>key\<close>, from the current \<open>(input_size, num_classes)\<close>.
\<close>

definition infer_step ::
  "'a state_dict \<Rightarrow> string \<Rightarrow> nat option \<times> nat option \<Rightarrow> py_error + (nat option \<times> nat option)" where
  "infer_step state_dict key st =
     (case st of (input_size, num_classes) \<Rightarrow>
        (case
           (if str_in ''mlp.6.weight'' key \<or> str_in ''mlp.6.bias'' key then
              (if str_in ''weight'' key then
                 (case shape_at state_dict key 0 of Inl e \<Rightarrow> Inl e | Inr n \<Rightarrow> Inr (Some n))
               else if str_in ''bias'' key \<and> num_classes = None then
                 (case shape_at state_dict key 0 of Inl e \<Rightarrow> Inl e | Inr n \<Rightarrow> Inr (Some n))
               else Inr num_classes)
            else Inr num_classes)
         of Inl e \<Rightarrow> Inl e
          | Inr num_classes' \<Rightarrow>
              (if str_in ''mlp.0.weight'' key then
                 (case shape_at state_dict key 1 of
                    Inl e \<Rightarrow> Inl e
                  | Inr n \<Rightarrow> Inr (Some n, num_classes'))
               else Inr (input_size, num_classes'))))"

fun infer_loop ::
  "'a state_dict \<Rightarrow> string list \<Rightarrow> nat option \<times> nat option \<Rightarrow> py_error + (nat option \<times> nat option)" where
  "infer_loop state_dict [] st = Inr st"
| "infer_loop state_dict (key # keys) st =
     (case infer_step state_dict key st of
        Inl e \<Rightarrow> Inl e
      | Inr st' \<Rightarrow> infer_loop state_dict keys st')"

definition infer_sizes :: "'a state_dict \<Rightarrow> py_error + (nat option \<times> nat option)" where
  "infer_sizes state_dict = infer_loop state_dict (map fst state_dict) (None, None)"

subsection \<open>get_model: the class MLPHead (lines 50 to 63)\<close>

definition MLPHead :: "nat \<Rightarrow> nat \<Rightarrow> layer list" where
  "MLPHead input_size num_classes =
     [Linear input_size 256, ReLU, Dropout 0.3,
      Linear 256 128, ReLU, Dropout 0.3,
      Linear 128 num_classes, Sigmoid]"

subsection \<open>get_model: choosing the architecture (lines 39 to 70)\<close>

definition reconstruct :: "'a state_dict \<Rightarrow> event list \<times> (py_error + layer list)" where
  "reconstruct state_dict =
     (case infer_sizes state_dict of
        Inl e \<Rightarrow> ([], Inl e)
      | Inr (input_size, num_classes) \<Rightarrow>
          ([Print (''   Inferred input size: '' @ str_opt input_size),
            Print (''   Inferred num_classes: '' @ str_opt num_classes)],
           if truthy input_size \<and> truthy num_classes then
             Inr (MLPHead (the input_size) (the num_classes))
           else if truthy num_classes then
             Inr (MLPHead 512 (the num_classes))
           else Inl (ValueError ''Could not infer model architecture from state_dict'')))"

subsection \<open>get_model (lines 21 to 76)\<close>

text \<open>
  What the run finds outside the script: whether the checkpoint file exists, what the two
  calls of \<^verbatim>\<open>torch.load\<close> give (an exception or an object), and what
  \<^verbatim>\<open>model.load_state_dict(state_dict)\<close> does to a freshly built module of a given
  architecture: it raises, or the module then has the returned named parameters.
\<close>

record 'a world =
  path_exists :: bool
  load_first :: "py_error + 'a pyobj"
  load_second :: "py_error + 'a pyobj"
  load_state_dict :: "layer list \<Rightarrow> 'a state_dict \<Rightarrow> py_error + (string \<times> 'a tensor) list"

text \<open>\<^verbatim>\<open>state_dict.keys()\<close> on what the second load returned.\<close>

definition keys_of :: "'a pyobj \<Rightarrow> py_error + 'a state_dict" where
  "keys_of obj =
     (case obj of
        Dict _ d \<Rightarrow> Inr d
      | Module _ cls _ _ \<Rightarrow> Inl (no_attribute cls ''keys'')
      | Unknown _ ty _ \<Rightarrow> Inl (no_attribute ty ''keys''))"

text \<open>The body of the second \<^verbatim>\<open>try\<close> (lines 36 to 74).\<close>

definition load_as_state_dict :: "'a world \<Rightarrow> event list \<times> (py_error + 'a nn_module)" where
  "load_as_state_dict w =
     (case load_second w of
        Inl e \<Rightarrow> ([], Inl e)
      | Inr obj \<Rightarrow>
          (let out1 = [Print (newline @ warning_sign @
                 ''  Model was saved as state_dict. Reconstructing architecture...'')]
           in case keys_of obj of
                Inl e \<Rightarrow> (out1, Inl e)
              | Inr state_dict \<Rightarrow>
                  (case reconstruct state_dict of
                     (out2, Inl e) \<Rightarrow> (out1 @ out2, Inl e)
                   | (out2, Inr arch) \<Rightarrow>
                       (case load_state_dict w arch state_dict of
                          Inl e \<Rightarrow> (out1 @ out2, Inl e)
                        | Inr ps \<Rightarrow>
                            (out1 @ out2 @
                               [Print (check_mark @ '' Successfully loaded model from state_dict'')],
                             Inr \<lparr>mlp = arch, named_parameters = ps, training = True\<rparr>)))))"

definition get_model :: "'a world \<Rightarrow> event list \<times> (py_error + 'a nn_module)" where
  "get_model w =
     (let out0 = [Print ''Attempting to load full model from file...''] in
      case load_first w of
        Inr (Module _ _ _ model) \<Rightarrow>
          (out0 @ [Print (check_mark @ '' Successfully loaded full model'')], Inr model)
      | r \<Rightarrow>
          (let out1 = (case r of
                         Inl e \<Rightarrow> [Print (''Could not load as full model: '' @ str_error e),
                                   Print ''Trying to load as state_dict...'']
                       | Inr _ \<Rightarrow> [])
           in case load_as_state_dict w of
                (out2, Inl e) \<Rightarrow>
                  (out0 @ out1 @ out2, Inl (RuntimeError (''Could not load model: '' @ str_error e)))
              | (out2, Inr model) \<Rightarrow> (out0 @ out1 @ out2, Inr model)))"

subsection \<open>export_weights (lines 78 to 119)\<close>

text \<open>
  \<^verbatim>\<open>param.detach().cpu().numpy().tolist()\<close>: detaching, moving to host memory and
  viewing as an array leave shape and elements alone; \<^verbatim>\<open>tolist\<close> nests the elements
  by the shape, one level per dimension, and gives the bare element for no dimension.
\<close>

datatype 'a nested = Leaf 'a | Nest "'a nested list"

fun chunks :: "nat \<Rightarrow> nat \<Rightarrow> 'a list \<Rightarrow> 'a list list" where
  "chunks sz 0 xs = []"
| "chunks sz (Suc d) xs = take sz xs # chunks sz d (drop sz xs)"

fun nest :: "nat list \<Rightarrow> 'a list \<Rightarrow> 'a nested" where
  "nest [] xs = (case xs of x # _ \<Rightarrow> Leaf x | [] \<Rightarrow> Nest [])"
| "nest (d # ds) xs = Nest (map (nest ds) (chunks (prod_list ds) d xs))"

definition tolist :: "'a tensor \<Rightarrow> 'a nested" where
  "tolist t = nest (shape t) (elems t)"

record 'a entry =
  data :: "'a nested"
  shape_list :: "nat list"

type_synonym 'a weights = "(string \<times> 'a entry) list"

text \<open>
  The loop over \<^verbatim>\<open>model.named_parameters()\<close> (lines 95 to 103). The dict \<open>weights\<close>
  keeps insertion order; storing under a key it already has replaces the value in place.
\<close>

fun export_loop ::
  "(string \<times> 'a tensor) list \<Rightarrow> 'a weights \<times> event list \<Rightarrow> 'a weights \<times> event list" where
  "export_loop [] acc = acc"
| "export_loop ((name, param) # rest) (weights, out) =
     (if str_in ''weight'' name \<or> str_in ''bias'' name then
        export_loop rest
          (AList.update name \<lparr>data = tolist param, shape_list = shape param\<rparr> weights,
           out @ [Print (''  Exported '' @ name @ '': shape '' @ str_list (shape param))])
      else export_loop rest (weights, out))"

definition closing_lines :: "event list" where
  "closing_lines =
     [Print (newline @ check_mark @ '' Successfully exported weights to mlp_weights.json''),
      Print (newline @ ''Model architecture:''),
      Print ''  Input: 512 (CLIP features)'',
      Print ''  Layer 1: Linear(512 -> 256) + ReLU + Dropout(0.3)'',
      Print ''  Layer 2: Linear(256 -> 128) + ReLU + Dropout(0.3)'',
      Print ''  Layer 3: Linear(128 -> 12) + Sigmoid'',
      Print (newline @ ''Next steps:''),
      Print ''1. Copy mlp_weights.json to your Convex project'',
      Print ''2. Import it in your TypeScript code'',
      Print ''3. Implement the forward pass function'']"

text \<open>
  The result \<open>Return weights\<close> stands for the mapping that \<^verbatim>\<open>json.dump\<close> writes to
  \<^verbatim>\<open>mlp_weights.json\<close>; the write itself is taken to succeed.
\<close>

definition export_weights :: "'a world \<Rightarrow> event list \<times> 'a weights outcome" where
  "export_weights w =
     (if \<not> path_exists w then
        ([Print ''Error: composition_classifier.pt not found!''], Exit 1)
      else
        (let out0 = [Print ''Loading model from composition_classifier.pt...''] in
         case get_model w of
           (out1, Inl e) \<Rightarrow> (out0 @ out1, Raise e)
         | (out1, Inr model) \<Rightarrow>
             (let model' = model\<lparr>training := False\<rparr>;
                  (weights, out2) = export_loop (named_parameters model') ([], [])
              in (out0 @ out1 @ out2 @ closing_lines, Return weights))))"

text \<open>
  The reader's side of the round trip: the elements of a nested array in order, and the
  tensor they make under a shape, when their number fits it.
\<close>

fun flatten :: "'a nested \<Rightarrow> 'a list" where
  "flatten (Leaf x) = [x]"
| "flatten (Nest ns) = concat (map flatten ns)"

definition reshape :: "'a nested \<Rightarrow> nat list \<Rightarrow> 'a tensor option" where
  "reshape n ds =
     (if length (flatten n) = prod_list ds then Some \<lparr>shape = ds, elems = flatten n\<rparr> else None)"

section \<open>inspect_model.py\<close>

definition has_key :: "'a state_dict \<Rightarrow> string \<Rightarrow> bool" where
  "has_key d k = (k \<in> set (map fst d))"

text \<open>The loop that prints the first entries (lines 38 and 39).\<close>

fun list_layers :: "'a state_dict \<Rightarrow> string list \<Rightarrow> event list \<times> py_error option" where
  "list_layers d [] = ([], None)"
| "list_layers d (key # keys) =
     (case getitem d key of
        Inl e \<Rightarrow> ([], Some e)
      | Inr v \<Rightarrow>
          (case shape_of v of
             Inl e \<Rightarrow> ([], Some e)
           | Inr s \<Rightarrow>
               (case list_layers d keys of
                  (out, r) \<Rightarrow> (Print (''    - '' @ key @ '': shape '' @ str_size s) # out, r))))"

text \<open>The loop over the three head names, left at the first one present (lines 45 to 49).\<close>

fun infer_head :: "'a state_dict \<Rightarrow> string list \<Rightarrow> event list \<times> py_error option" where
  "infer_head d [] = ([], None)"
| "infer_head d (key # keys) =
     (if has_key d key then
        (case shape_at d key 0 of
           Inl e \<Rightarrow> ([], Some e)
         | Inr num_classes \<Rightarrow>
             ([Print (newline @ ''  Inferred num_classes: '' @ str_nat num_classes @
                      '' (from '' @ key @ '')'')], None))
      else infer_head d keys)"

definition head_names :: "string list" where
  "head_names = [''classifier.weight'', ''fc.weight'', ''head.weight'']"

text \<open>The branch for a dict (lines 35 to 53), up to its \<^verbatim>\<open>return False\<close>.\<close>

definition inspect_dict :: "'a state_dict \<Rightarrow> event list \<times> py_error option" where
  "inspect_dict d =
     (let out1 = [Print (warning_sign @
                    ''  This is a state_dict (saved with torch.save(model.state_dict(), ...))''),
                  Print (''  Number of layers: '' @ str_nat (length d)),
                  Print (newline @ ''  Layer names:'')]
      in case list_layers d (take 10 (map fst d)) of
           (out2, Some e) \<Rightarrow> (out1 @ out2, Some e)
         | (out2, None) \<Rightarrow>
             (let out3 = (if length d > 10
                          then [Print (''    ... and '' @ str_nat (length d - 10) @ '' more layers'')]
                          else [])
              in case (if has_key d ''classifier.weight'' \<or> has_key d ''fc.weight'' \<or>
                          has_key d ''head.weight''
                       then infer_head d head_names else ([], None)) of
                   (out4, Some e) \<Rightarrow> (out1 @ out2 @ out3 @ out4, Some e)
                 | (out4, None) \<Rightarrow>
                     (out1 @ out2 @ out3 @ out4 @
                        [Print (newline @ warning_sign @
                           ''  You need to define the model architecture to load this.''),
                         Print ''   Update convert_to_onnx.py with your model definition.''],
                      None)))"

text \<open>The body of the \<^verbatim>\<open>try\<close> (lines 22 to 58): its output and an exception or the value returned.\<close>

definition inspect_body :: "(py_error + 'a pyobj) \<Rightarrow> event list \<times> (py_error + bool)" where
  "inspect_body loaded =
     (case loaded of
        Inl e \<Rightarrow> ([], Inl e)
      | Inr obj \<Rightarrow>
          (let out1 = [Print (''Type: '' @ str_type obj)] in
           case obj of
             Module _ cls s _ \<Rightarrow>
               (out1 @
                  [Print (check_mark @ '' This is a full model (saved with torch.save(model, ...))''),
                   Print (''  Model class: '' @ cls),
                   Print (''  Model: '' @ s),
                   Print (newline @ check_mark @
                      '' You can load this directly - no architecture definition needed!'')],
                Inr True)
           | Dict _ d \<Rightarrow>
               (case inspect_dict d of
                  (out2, Some e) \<Rightarrow> (out1 @ out2, Inl e)
                | (out2, None) \<Rightarrow> (out1 @ out2, Inr False))
           | Unknown _ _ s \<Rightarrow>
               (out1 @
                  [Print (warning_sign @ ''  Unknown format: '' @ str_type obj),
                   Print (''  Content: '' @ take 200 s @ ''...'')],
                Inr False)))"

text \<open>
  \<open>inspect_model exists loaded model_path\<close>: \<open>exists\<close> is what \<^verbatim>\<open>os.path.exists\<close>
  answers, \<open>loaded\<close> what \<^verbatim>\<open>torch.load\<close> gives.
\<close>

definition inspect_model :: "bool \<Rightarrow> (py_error + 'a pyobj) \<Rightarrow> string \<Rightarrow> event list \<times> bool outcome" where
  "inspect_model exists loaded model_path =
     (if \<not> exists then
        ([Print (''Error: '' @ model_path @ '' not found!'')], Exit 1)
      else
        (let out0 = [Print (''Inspecting '' @ model_path @ ''...'' @ newline)] in
         case inspect_body loaded of
           (out1, Inr b) \<Rightarrow> (out0 @ out1, Return b)
         | (out1, Inl e) \<Rightarrow>
             (out0 @ out1 @ [Print (''Error loading file: '' @ str_error e), PrintExc e],
              Return False)))"

text \<open>The script's entry point (lines 66 to 68).\<close>

definition inspect_main :: "bool \<Rightarrow> (py_error + 'a pyobj) \<Rightarrow> event list \<times> bool outcome" where
  "inspect_main exists loaded = inspect_model exists loaded ''composition_classifier.pt''"

section \<open>Notions the properties are stated with\<close>

text \<open>
  A key names the last linear layer when it contains \<^verbatim>\<open>mlp.6.weight\<close> or
  \<^verbatim>\<open>mlp.6.bias\<close>. Several keys of one dict can contain a substring; the two functions
  below say which key's tensor decides each size once the loop has run over all keys:
  for the input size the last key that contains \<^verbatim>\<open>mlp.0.weight\<close>; for the number of
  classes the last key of the last layer that contains \<^verbatim>\<open>weight\<close>, and when there
  is none, the first key of the last layer.
\<close>

definition last_layer_key :: "string \<Rightarrow> bool" where
  "last_layer_key k = (str_in ''mlp.6.weight'' k \<or> str_in ''mlp.6.bias'' k)"

definition input_size_key :: "'a state_dict \<Rightarrow> string option" where
  "input_size_key sd =
     (case filter (str_in ''mlp.0.weight'') (map fst sd) of [] \<Rightarrow> None | k # ks \<Rightarrow> Some (last (k # ks)))"

definition num_classes_key :: "'a state_dict \<Rightarrow> string option" where
  "num_classes_key sd =
     (let ms = filter last_layer_key (map fst sd); ws = filter (str_in ''weight'') ms
      in if ws \<noteq> [] then Some (last ws) else if ms \<noteq> [] then Some (hd ms) else None)"

text \<open>The update of \<open>num_classes\<close> alone in one pass of the loop body.\<close>

definition step_classes :: "'a state_dict \<Rightarrow> string \<Rightarrow> nat option \<Rightarrow> py_error + nat option" where
  "step_classes sd key nc =
     (if last_layer_key key \<and> (str_in ''weight'' key \<or> nc = None) then
        (case shape_at sd key 0 of Inl e \<Rightarrow> Inl e | Inr n \<Rightarrow> Inr (Some n))
      else Inr nc)"

text \<open>Inputs for the examples: a tensor of zeros of a given shape, and a world.\<close>

definition zeros :: "nat list \<Rightarrow> nat tensor" where
  "zeros s = \<lparr>shape = s, elems = replicate (prod_list s) 0\<rparr>"

definition missing_world :: "nat world" where
  "missing_world =
     \<lparr>path_exists = False,
      load_first = Inl (LoadError ''No such file or directory''),
      load_second = Inl (LoadError ''No such file or directory''),
      load_state_dict = (\<lambda>arch sd. Inl (LoadError ''unused''))\<rparr>"

text \<open>\<^verbatim>\<open>isinstance(model, torch.nn.Module)\<close> on the outcome of the first load.\<close>

definition is_module :: "py_error + 'a pyobj \<Rightarrow> bool" where
  "is_module r = (case r of Inr (Module _ _ _ _) \<Rightarrow> True | _ \<Rightarrow> False)"

definition full_dict :: "nat state_dict" where
  "full_dict =
     [(''mlp.0.weight'', Tensor (zeros [256, 512])), (''mlp.0.bias'', Tensor (zeros [256])),
      (''mlp.3.weight'', Tensor (zeros [128, 256])), (''mlp.3.bias'', Tensor (zeros [128])),
      (''mlp.6.weight'', Tensor (zeros [12, 128])), (''mlp.6.bias'', Tensor (zeros [12]))]"


definition weight_named_bias_dict :: "nat state_dict" where
  "weight_named_bias_dict =
     [(''mlp.6.weight'', Tensor (zeros [12, 128])),
      (''weight_norm.mlp.6.bias'', Tensor (zeros [7]))]"


definition only_first_dict :: "nat state_dict" where
  "only_first_dict = [(''mlp.0.weight'', Tensor (zeros [256, 512]))]"

definition no_layer_dict :: "nat state_dict" where
  "no_layer_dict = [(''fc.weight'', Tensor (zeros [10, 64])), (''fc.bias'', Tensor (zeros [10]))]"

text \<open>
  An example of \<open>load_state_dict\<close>: it takes every tensor of the dict as a parameter. A
  world whose file holds a dict, loaded the same way twice.
\<close>

definition tensors_of :: "'a state_dict \<Rightarrow> (string \<times> 'a tensor) list" where
  "tensors_of sd = concat (map (\<lambda>(k, v). case v of Tensor t \<Rightarrow> [(k, t)] | NonTensor _ \<Rightarrow> []) sd)"

definition dict_world :: "'a state_dict \<Rightarrow> 'a world" where
  "dict_world sd =
     \<lparr>path_exists = True,
      load_first = Inr (Dict ''collections.OrderedDict'' sd),
      load_second = Inr (Dict ''collections.OrderedDict'' sd),
      load_state_dict = (\<lambda>arch d. Inr (tensors_of d))\<rparr>"

text \<open>
  The entry the exporter stores for a parameter, and the test on a parameter's name.
\<close>

definition entry_of :: "'a tensor \<Rightarrow> 'a entry" where
  "entry_of param = \<lparr>data = tolist param, shape_list = shape param\<rparr>"

definition exported_name :: "string \<Rightarrow> bool" where
  "exported_name name = (str_in ''weight'' name \<or> str_in ''bias'' name)"

text \<open>A small module saved whole, and the world whose file holds it.\<close>

definition tiny_model :: "nat nn_module" where
  "tiny_model =
     \<lparr>mlp = [Linear 3 2],
      named_parameters =
        [(''fc.weight'', \<lparr>shape = [2, 3], elems = [10, 20, 30, 40, 50, 60]\<rparr>),
         (''fc.bias'', \<lparr>shape = [2], elems = [7, 8]\<rparr>),
         (''scale'', \<lparr>shape = [], elems = [9]\<rparr>)],
      training = True\<rparr>"

definition module_world :: "'a nn_module \<Rightarrow> 'a world" where
  "module_world m =
     \<lparr>path_exists = True,
      load_first = Inr (Module ''__main__.Net'' ''Net'' ''Net()'' m),
      load_second = Inr (Module ''__main__.Net'' ''Net'' ''Net()'' m),
      load_state_dict = (\<lambda>arch d. Inr (tensors_of d))\<rparr>"

text \<open>
  The shape of the tensor under a key of a dict, for stating what the inspector prints;
  it is the empty list where the key holds no tensor.
\<close>

definition shape_under :: "'a state_dict \<Rightarrow> string \<Rightarrow> nat list" where
  "shape_under d k = (case map_of d k of Some (Tensor t) \<Rightarrow> shape t | _ \<Rightarrow> [])"

section \<open>Properties\<close>

subsection \<open>Substrings\<close>

lemma str_in_sublist: "str_in a b = sublist a b"
  by (induction b) (auto simp: sublist_Cons_right)

lemma str_in_trans: "str_in a b \<Longrightarrow> str_in b c \<Longrightarrow> str_in a c"
  unfolding str_in_sublist by (rule sublist_order.order_trans)

lemma weight_in_key: "str_in ''mlp.6.weight'' k \<Longrightarrow> str_in ''weight'' k"
  by (rule str_in_trans [of _ "''mlp.6.weight''"]) simp_all

lemma bias_in_key: "str_in ''mlp.6.bias'' k \<Longrightarrow> str_in ''bias'' k"
  by (rule str_in_trans [of _ "''mlp.6.bias''"]) simp_all

subsection \<open>A missing checkpoint file\<close>

text \<open>
  C7. When the checkpoint file does not exist, each script prints the line that reports
  the missing file, prints nothing else, and exits with status 1: the exporter's
  \<open>export_weights\<close>, the inspector's \<open>inspect_model\<close> on any path, and the inspector's
  entry point on its fixed path.
\<close>

theorem missing_file_exits_1:
  "(\<not> path_exists w \<longrightarrow>
      export_weights w = ([Print ''Error: composition_classifier.pt not found!''], Exit 1)) \<and>
   inspect_model False loaded model_path =
      ([Print (''Error: '' @ model_path @ '' not found!'')], Exit 1) \<and>
   inspect_main False loaded =
      ([Print ''Error: composition_classifier.pt not found!''], Exit 1)"
  by (simp add: export_weights_def inspect_model_def inspect_main_def)

theorem missing_file_exits_1_witness:
  "\<not> path_exists missing_world \<and>
   export_weights missing_world =
      ([Print ''Error: composition_classifier.pt not found!''], Exit 1) \<and>
   inspect_main False (load_first missing_world) =
      ([Print ''Error: composition_classifier.pt not found!''], Exit 1)"
proof -
  have absent: "\<not> path_exists missing_world"
    by (simp add: missing_world_def)
  from missing_file_exits_1 [of missing_world "load_first missing_world" "[]"] absent
  show ?thesis by blast
qed

subsection \<open>The loop that infers the sizes\<close>

lemma shape_zeros [simp]: "shape (zeros s) = s"
  by (simp add: zeros_def)

lemma infer_step_eq:
  "infer_step sd key (i, nc) =
     (case step_classes sd key nc of
        Inl e \<Rightarrow> Inl e
      | Inr nc' \<Rightarrow>
          (if str_in ''mlp.0.weight'' key then
             (case shape_at sd key 1 of Inl e \<Rightarrow> Inl e | Inr n \<Rightarrow> Inr (Some n, nc'))
           else Inr (i, nc')))"
  using bias_in_key [of key] weight_in_key [of key]
  by (auto simp: infer_step_def step_classes_def last_layer_key_def split: sum.splits)

lemma infer_loop_input_size:
  assumes "infer_loop sd ks (i0, n0) = Inr (i, n)"
  shows "case filter (str_in ''mlp.0.weight'') ks of
           [] \<Rightarrow> i = i0
         | f # fs \<Rightarrow> shape_at sd (last (f # fs)) 1 = Inr (the i) \<and> i \<noteq> None"
  using assms
proof (induction ks arbitrary: i0 n0)
  case Nil
  then show ?case by simp
next
  case (Cons k ks)
  from Cons.prems obtain i1 n1 where
    step: "infer_step sd k (i0, n0) = Inr (i1, n1)" and rest: "infer_loop sd ks (i1, n1) = Inr (i, n)"
    by (auto split: sum.splits)
  note IH = Cons.IH [OF rest]
  show ?case
  proof (cases "filter (str_in ''mlp.0.weight'') ks")
    case Nil
    with IH have "i = i1" by simp
    with step Nil show ?thesis
      by (auto simp: infer_step_eq split: sum.splits if_splits)
  next
    case (Cons f fs)
    with IH show ?thesis by (auto split: list.splits)
  qed
qed

lemma infer_loop_num_classes:
  assumes "infer_loop sd ks (i0, n0) = Inr (i, n)"
  shows "if filter (str_in ''weight'') (filter last_layer_key ks) \<noteq> [] then
           shape_at sd (last (filter (str_in ''weight'') (filter last_layer_key ks))) 0 = Inr (the n) \<and>
           n \<noteq> None
         else if n0 \<noteq> None then n = n0
         else if filter last_layer_key ks \<noteq> [] then
           shape_at sd (hd (filter last_layer_key ks)) 0 = Inr (the n) \<and> n \<noteq> None
         else n = None"
  using assms
proof (induction ks arbitrary: i0 n0)
  case Nil
  then show ?case by simp
next
  case (Cons k ks)
  from Cons.prems obtain i1 n1 where
    step: "infer_step sd k (i0, n0) = Inr (i1, n1)" and rest: "infer_loop sd ks (i1, n1) = Inr (i, n)"
    by (auto split: sum.splits)
  from step have n1: "step_classes sd k n0 = Inr n1"
    by (auto simp: infer_step_eq split: sum.splits if_splits)
  note IH = Cons.IH [OF rest]
  show ?case
  proof (cases "filter (str_in ''weight'') (filter last_layer_key ks) \<noteq> []")
    case True
    then have "filter last_layer_key ks \<noteq> []"
      by (auto simp: filter_empty_conv)
    with True IH show ?thesis by simp
  next
    case False
    with IH n1 show ?thesis
      by (auto simp: step_classes_def split: sum.splits if_splits)
  qed
qed

lemma infer_loop_total:
  assumes "\<forall>k\<in>set ks. str_in ''mlp.0.weight'' k \<longrightarrow> (\<exists>v. shape_at sd k 1 = Inr v)"
    and "\<forall>k\<in>set ks. last_layer_key k \<longrightarrow> (\<exists>v. shape_at sd k 0 = Inr v)"
  shows "\<exists>st'. infer_loop sd ks st = Inr st'"
  using assms
proof (induction ks arbitrary: st)
  case Nil
  then show ?case by simp
next
  case (Cons k ks)
  obtain i0 n0 where st: "st = (i0, n0)" by (cases st)
  from Cons.prems have "\<exists>st1. infer_step sd k (i0, n0) = Inr st1"
    by (auto simp: infer_step_eq step_classes_def split: sum.splits)
  then obtain st1 where "infer_step sd k st = Inr st1" using st by auto
  moreover from Cons.IH [of st1] Cons.prems obtain st' where "infer_loop sd ks st1 = Inr st'" by auto
  ultimately show ?case by simp
qed

lemma infer_sizes_input:
  assumes "infer_sizes sd = Inr (i, n)"
  shows "case input_size_key sd of
           None \<Rightarrow> i = None
         | Some k \<Rightarrow> \<exists>v. shape_at sd k 1 = Inr v \<and> i = Some v"
  using infer_loop_input_size [of sd "map fst sd" None None i n] assms
  by (auto simp: infer_sizes_def input_size_key_def split: list.splits)

lemma infer_sizes_classes:
  assumes "infer_sizes sd = Inr (i, n)"
  shows "case num_classes_key sd of
           None \<Rightarrow> n = None
         | Some k \<Rightarrow> \<exists>v. shape_at sd k 0 = Inr v \<and> n = Some v"
  using infer_loop_num_classes [of sd "map fst sd" None None i n] assms
  by (auto simp: infer_sizes_def num_classes_key_def Let_def split: if_splits)

lemma infer_sizes_total:
  assumes "\<forall>k\<in>set (map fst sd). str_in ''mlp.0.weight'' k \<longrightarrow> (\<exists>v. shape_at sd k 1 = Inr v)"
    and "\<forall>k\<in>set (map fst sd). last_layer_key k \<longrightarrow> (\<exists>v. shape_at sd k 0 = Inr v)"
  shows "\<exists>i n. infer_sizes sd = Inr (i, n)"
  using infer_loop_total [OF assms, of "(None, None)"] by (auto simp: infer_sizes_def)


lemma reconstruct_Inl:
  assumes "infer_sizes sd = Inr (i, n)" and "\<not> truthy n"
  shows "snd (reconstruct sd) = Inl (ValueError ''Could not infer model architecture from state_dict'')"
  using assms by (simp add: reconstruct_def)

lemma get_model_not_module:
  assumes "\<not> is_module (load_first w)"
  shows "snd (get_model w) =
           (case snd (load_as_state_dict w) of
              Inl e \<Rightarrow> Inl (RuntimeError (''Could not load model: '' @ str_error e))
            | Inr model \<Rightarrow> Inr model)"
  using assms
  by (auto simp: get_model_def is_module_def Let_def split: sum.splits pyobj.splits prod.splits)

lemma load_as_state_dict_Dict:
  assumes "load_second w = Inr (Dict q sd)"
  shows "snd (load_as_state_dict w) =
           (case snd (reconstruct sd) of
              Inl e \<Rightarrow> Inl e
            | Inr arch \<Rightarrow>
                (case load_state_dict w arch sd of
                   Inl e \<Rightarrow> Inl e
                 | Inr ps \<Rightarrow> Inr \<lparr>mlp = arch, named_parameters = ps, training = True\<rparr>))"
  using assms
  by (auto simp: load_as_state_dict_def keys_of_def Let_def split: sum.splits prod.splits)


subsection \<open>The sizes of the reconstructed model\<close>








text \<open>
  C10 (as amended). In a state dict with a key containing \<^verbatim>\<open>mlp.6.weight\<close> and a key
  containing \<^verbatim>\<open>mlp.6.bias\<close>, where no key that contains \<^verbatim>\<open>mlp.6.bias\<close> but not
  \<^verbatim>\<open>mlp.6.weight\<close> contains \<^verbatim>\<open>weight\<close> elsewhere in its name, a completed
  inference gives as number of classes the first dimension of the tensor under the
  last key containing \<^verbatim>\<open>mlp.6.weight\<close>, wherever the bias keys stand in the order.
\<close>

theorem weight_decides_num_classes:
  assumes "infer_sizes sd = Inr (i, n)"
    and "\<exists>k\<in>set (map fst sd). str_in ''mlp.6.weight'' k"
    and "\<exists>k\<in>set (map fst sd). str_in ''mlp.6.bias'' k"
    and "\<forall>k\<in>set (map fst sd). str_in ''mlp.6.bias'' k \<and> str_in ''weight'' k \<longrightarrow> str_in ''mlp.6.weight'' k"
  shows "\<exists>v. shape_at sd (last (filter (str_in ''mlp.6.weight'') (map fst sd))) 0 = Inr v \<and>
           n = Some v"
proof -
  have same: "filter (str_in ''weight'') (filter last_layer_key (map fst sd)) =
              filter (str_in ''mlp.6.weight'') (map fst sd)"
    using assms(4) weight_in_key
    by (auto simp: last_layer_key_def intro!: filter_cong)
  from assms(2) have "filter (str_in ''mlp.6.weight'') (map fst sd) \<noteq> []"
    by (auto simp: filter_empty_conv)
  with same have "num_classes_key sd = Some (last (filter (str_in ''mlp.6.weight'') (map fst sd)))"
    by (simp add: num_classes_key_def Let_def)
  with infer_sizes_classes [OF assms(1)] show ?thesis by simp
qed

lemma infer_sizes_full_dict: "infer_sizes full_dict = Inr (Some 512, Some 12)"
  by (simp add: infer_sizes_def infer_step_def shape_at_def getitem_def shape_of_def index_def
      full_dict_def)

theorem weight_decides_num_classes_witness:
  "infer_sizes full_dict = Inr (Some 512, Some 12) \<and>
   last (filter (str_in ''mlp.6.weight'') (map fst full_dict)) = ''mlp.6.weight'' \<and>
   shape_at full_dict ''mlp.6.weight'' 0 = Inr 12"
proof -
  have w: "\<exists>k\<in>set (map fst full_dict). str_in ''mlp.6.weight'' k"
    by (simp add: full_dict_def)
  have b: "\<exists>k\<in>set (map fst full_dict). str_in ''mlp.6.bias'' k"
    by (simp add: full_dict_def)
  have nb: "\<forall>k\<in>set (map fst full_dict).
              str_in ''mlp.6.bias'' k \<and> str_in ''weight'' k \<longrightarrow> str_in ''mlp.6.weight'' k"
    by (simp add: full_dict_def)
  have l: "last (filter (str_in ''mlp.6.weight'') (map fst full_dict)) = ''mlp.6.weight''"
    by (simp add: full_dict_def)
  from weight_decides_num_classes [OF infer_sizes_full_dict w b nb] l infer_sizes_full_dict
  show ?thesis by auto
qed

text \<open>
  The claim as first stated fails for a bias key whose name contains \<^verbatim>\<open>weight\<close>: it
  takes the branch of the weights and overwrites the number of classes.
\<close>

theorem weight_named_bias_counterexample:
  "map fst weight_named_bias_dict = [''mlp.6.weight'', ''weight_norm.mlp.6.bias''] \<and>
   str_in ''mlp.6.weight'' ''mlp.6.weight'' \<and>
   str_in ''mlp.6.bias'' ''weight_norm.mlp.6.bias'' \<and>
   \<not> str_in ''mlp.6.weight'' ''weight_norm.mlp.6.bias'' \<and>
   shape_at weight_named_bias_dict ''mlp.6.weight'' 0 = Inr 12 \<and>
   shape_at weight_named_bias_dict ''weight_norm.mlp.6.bias'' 0 = Inr 7 \<and>
   infer_sizes weight_named_bias_dict = Inr (None, Some 7)"
  by (simp add: infer_sizes_def infer_step_def shape_at_def getitem_def shape_of_def index_def
      weight_named_bias_dict_def)




subsection \<open>Failing to infer the architecture\<close>

lemma get_model_reconstruct_fails:
  assumes "\<not> is_module (load_first w)" and "load_second w = Inr (Dict q sd)"
    and "snd (reconstruct sd) = Inl e"
  shows "snd (get_model w) = Inl (RuntimeError (''Could not load model: '' @ str_error e))"
  using assms by (simp add: get_model_not_module load_as_state_dict_Dict)

text \<open>
  C6. When no key of the state dict contains \<^verbatim>\<open>mlp.0.weight\<close>, \<^verbatim>\<open>mlp.6.weight\<close> or
  \<^verbatim>\<open>mlp.6.bias\<close>, the reconstruction raises the ValueError that says the architecture
  could not be inferred, and \<open>get_model\<close>, having come to the state dict, raises a
  RuntimeError carrying that message; no model is returned.
\<close>

theorem no_layer_keys_fail:
  assumes "\<forall>k\<in>set (map fst sd). \<not> str_in ''mlp.0.weight'' k \<and> \<not> str_in ''mlp.6.weight'' k \<and>
             \<not> str_in ''mlp.6.bias'' k"
    and "\<not> is_module (load_first w)" and "load_second w = Inr (Dict q sd)"
  shows "snd (reconstruct sd) =
           Inl (ValueError ''Could not infer model architecture from state_dict'') \<and>
         snd (get_model w) =
           Inl (RuntimeError
             ''Could not load model: Could not infer model architecture from state_dict'')"
proof -
  from assms(1) have "\<exists>i n. infer_sizes sd = Inr (i, n)"
    by (intro infer_sizes_total) (auto simp: last_layer_key_def)
  then obtain i n where sizes: "infer_sizes sd = Inr (i, n)" by blast
  from assms(1) have "num_classes_key sd = None"
    by (auto simp: num_classes_key_def Let_def last_layer_key_def filter_empty_conv)
  with infer_sizes_classes [OF sizes] have "n = None" by simp
  then have "\<not> truthy n" by (simp add: truthy_def)
  from reconstruct_Inl [OF sizes this] get_model_reconstruct_fails [OF assms(2,3)]
  show ?thesis by simp
qed

theorem no_layer_keys_fail_witness:
  "filter (\<lambda>k. str_in ''mlp.0.weight'' k \<or> str_in ''mlp.6.weight'' k \<or> str_in ''mlp.6.bias'' k)
      (map fst no_layer_dict) = [] \<and>
   \<not> is_module (load_first (dict_world no_layer_dict)) \<and>
   snd (reconstruct no_layer_dict) =
     Inl (ValueError ''Could not infer model architecture from state_dict'') \<and>
   snd (get_model (dict_world no_layer_dict)) =
     Inl (RuntimeError
       ''Could not load model: Could not infer model architecture from state_dict'')"
proof -
  have nokeys: "\<forall>k\<in>set (map fst no_layer_dict). \<not> str_in ''mlp.0.weight'' k \<and>
      \<not> str_in ''mlp.6.weight'' k \<and> \<not> str_in ''mlp.6.bias'' k"
    by (simp add: no_layer_dict_def)
  have first: "\<not> is_module (load_first (dict_world no_layer_dict))"
    by (simp add: dict_world_def is_module_def)
  have second: "load_second (dict_world no_layer_dict) =
      Inr (Dict ''collections.OrderedDict'' no_layer_dict)"
    by (simp add: dict_world_def)
  have none: "filter (\<lambda>k. str_in ''mlp.0.weight'' k \<or> str_in ''mlp.6.weight'' k \<or>
      str_in ''mlp.6.bias'' k) (map fst no_layer_dict) = []"
    by (simp add: no_layer_dict_def)
  from no_layer_keys_fail [OF nokeys first second] none first show ?thesis by blast
qed

text \<open>
  C9. When some key contains \<^verbatim>\<open>mlp.0.weight\<close>, each such key holds a tensor with a
  second dimension, and no key contains \<^verbatim>\<open>mlp.6.weight\<close> or \<^verbatim>\<open>mlp.6.bias\<close>, the
  loop does infer an input size and no number of classes, and the reconstruction raises
  the same ValueError all the same: the inferred input size is not used.
\<close>

theorem input_size_alone_fails:
  assumes "\<exists>k\<in>set (map fst sd). str_in ''mlp.0.weight'' k"
    and "\<forall>k\<in>set (map fst sd). str_in ''mlp.0.weight'' k \<longrightarrow> (\<exists>v. shape_at sd k 1 = Inr v)"
    and "\<forall>k\<in>set (map fst sd). \<not> str_in ''mlp.6.weight'' k \<and> \<not> str_in ''mlp.6.bias'' k"
    and "\<not> is_module (load_first w)" and "load_second w = Inr (Dict q sd)"
  shows "\<exists>i. infer_sizes sd = Inr (Some i, None) \<and>
           snd (reconstruct sd) =
             Inl (ValueError ''Could not infer model architecture from state_dict'') \<and>
           snd (get_model w) =
             Inl (RuntimeError
               ''Could not load model: Could not infer model architecture from state_dict'')"
proof -
  from assms(2,3) have "\<exists>i n. infer_sizes sd = Inr (i, n)"
    by (intro infer_sizes_total) (auto simp: last_layer_key_def)
  then obtain i n where sizes: "infer_sizes sd = Inr (i, n)" by blast
  from assms(3) have "num_classes_key sd = None"
    by (auto simp: num_classes_key_def Let_def last_layer_key_def filter_empty_conv)
  with infer_sizes_classes [OF sizes] have n: "n = None" by simp
  from assms(1) have "input_size_key sd \<noteq> None"
    by (auto simp: input_size_key_def filter_empty_conv split: list.splits)
  with infer_sizes_input [OF sizes] obtain v where "i = Some v" by auto
  with sizes n have found: "infer_sizes sd = Inr (Some v, None)" by simp
  have "\<not> truthy None" by (simp add: truthy_def)
  from reconstruct_Inl [OF found this] get_model_reconstruct_fails [OF assms(4,5)] found
  show ?thesis by simp
qed

theorem input_size_alone_fails_witness:
  "filter (str_in ''mlp.0.weight'') (map fst only_first_dict) = [''mlp.0.weight''] \<and>
   shape_at only_first_dict ''mlp.0.weight'' 1 = Inr 512 \<and>
   filter (\<lambda>k. str_in ''mlp.6.weight'' k \<or> str_in ''mlp.6.bias'' k) (map fst only_first_dict) = [] \<and>
   \<not> is_module (load_first (dict_world only_first_dict)) \<and>
   infer_sizes only_first_dict = Inr (Some 512, None) \<and>
   snd (get_model (dict_world only_first_dict)) =
     Inl (RuntimeError
       ''Could not load model: Could not infer model architecture from state_dict'')"
proof -
  have key: "\<exists>k\<in>set (map fst only_first_dict). str_in ''mlp.0.weight'' k"
    by (simp add: only_first_dict_def)
  have dim: "shape_at only_first_dict ''mlp.0.weight'' 1 = Inr 512"
    by (simp add: shape_at_def getitem_def shape_of_def index_def only_first_dict_def)
  then have dims: "\<forall>k\<in>set (map fst only_first_dict).
      str_in ''mlp.0.weight'' k \<longrightarrow> (\<exists>v. shape_at only_first_dict k 1 = Inr v)"
    by (simp add: only_first_dict_def)
  have nolast: "\<forall>k\<in>set (map fst only_first_dict).
      \<not> str_in ''mlp.6.weight'' k \<and> \<not> str_in ''mlp.6.bias'' k"
    by (simp add: only_first_dict_def)
  have first: "\<not> is_module (load_first (dict_world only_first_dict))"
    by (simp add: dict_world_def is_module_def)
  have second: "load_second (dict_world only_first_dict) =
      Inr (Dict ''collections.OrderedDict'' only_first_dict)"
    by (simp add: dict_world_def)
  have sizes: "infer_sizes only_first_dict = Inr (Some 512, None)"
    by (simp add: infer_sizes_def infer_step_def shape_at_def getitem_def shape_of_def
        index_def only_first_dict_def)
  have one: "filter (str_in ''mlp.0.weight'') (map fst only_first_dict) = [''mlp.0.weight'']"
    by (simp add: only_first_dict_def)
  have none: "filter (\<lambda>k. str_in ''mlp.6.weight'' k \<or> str_in ''mlp.6.bias'' k)
      (map fst only_first_dict) = []"
    by (simp add: only_first_dict_def)
  from input_size_alone_fails [OF key dims nolast first second] one dim none first sizes
  show ?thesis by auto
qed

subsection \<open>The fixed architecture\<close>







subsection \<open>The exported mapping\<close>

lemma update_fresh: "k \<notin> fst ` set al \<Longrightarrow> AList.update k v al = al @ [(k, v)]"
  by (induction al) auto

lemma export_loop_distinct:
  assumes "distinct (map fst ps)" and "fst ` set ps \<inter> fst ` set ws = {}"
  shows "fst (export_loop ps (ws, out)) =
           ws @ map (\<lambda>(name, param). (name, entry_of param))
                  (filter (\<lambda>(name, param). exported_name name) ps)"
  using assms
proof (induction ps arbitrary: ws out)
  case Nil
  then show ?case by simp
next
  case (Cons p ps)
  obtain name param where p: "p = (name, param)" by (cases p)
  show ?case
  proof (cases "exported_name name")
    case True
    from Cons.prems p have fresh: "name \<notin> fst ` set ws" by auto
    let ?ws = "AList.update name \<lparr>data = tolist param, shape_list = shape param\<rparr> ws"
    have ws: "?ws = ws @ [(name, entry_of param)]"
      using fresh by (simp add: update_fresh entry_of_def)
    from Cons.prems p have "distinct (map fst ps)" and "fst ` set ps \<inter> fst ` set ?ws = {}"
      by (auto simp: ws)
    from Cons.IH [OF this] True p ws show ?thesis
      by (simp add: exported_name_def)
  next
    case False
    from Cons.prems p have "distinct (map fst ps)" and "fst ` set ps \<inter> fst ` set ws = {}"
      by auto
    from Cons.IH [OF this] False p show ?thesis
      by (simp add: exported_name_def)
  qed
qed

lemma export_weights_Return:
  assumes "path_exists w" and "get_model w = (out1, Inr model)"
  shows "snd (export_weights w) = Return (fst (export_loop (named_parameters model) ([], [])))"
  using assms by (simp add: export_weights_def Let_def split: prod.splits)

text \<open>
  C2. When the file exists and \<open>get_model\<close> returns a model, whose named parameters
  have distinct names, the mapping written is, in the order of the parameters, one entry
  per parameter whose name contains \<^verbatim>\<open>weight\<close> or \<^verbatim>\<open>bias\<close>, under that name, with
  the parameter's nested values and, as \<open>shape\<close>, the list of its dimensions; the other
  parameters have no entry.
\<close>

theorem exported_entries:
  assumes "path_exists w" and "get_model w = (out1, Inr model)"
    and "distinct (map fst (named_parameters model))"
  shows "snd (export_weights w) =
           Return (map (\<lambda>(name, param). (name, \<lparr>data = tolist param, shape_list = shape param\<rparr>))
                     (filter (\<lambda>(name, param). str_in ''weight'' name \<or> str_in ''bias'' name)
                        (named_parameters model)))"
  using export_loop_distinct [OF assms(3), of "[]" "[]"] export_weights_Return [OF assms(1,2)]
  by (simp add: entry_of_def exported_name_def)

lemma get_model_tiny:
  "get_model (module_world tiny_model) =
     ([Print ''Attempting to load full model from file...'',
       Print (check_mark @ '' Successfully loaded full model'')], Inr tiny_model)"
  by (simp add: get_model_def module_world_def)

theorem exported_entries_witness:
  "path_exists (module_world tiny_model) \<and>
   distinct (map fst (named_parameters tiny_model)) \<and>
   snd (export_weights (module_world tiny_model)) =
     Return [(''fc.weight'',
                \<lparr>data = Nest [Nest [Leaf 10, Leaf 20, Leaf 30], Nest [Leaf 40, Leaf 50, Leaf 60]],
                 shape_list = [2, 3]\<rparr>),
             (''fc.bias'', \<lparr>data = Nest [Leaf 7, Leaf 8], shape_list = [2]\<rparr>)]"
proof -
  have present: "path_exists (module_world tiny_model)"
    by (simp add: module_world_def)
  have names: "distinct (map fst (named_parameters tiny_model))"
    by (simp add: tiny_model_def)
  have weight: "tolist \<lparr>shape = [2, 3], elems = [10, 20, 30, 40, 50, 60 :: nat]\<rparr> =
      Nest [Nest [Leaf 10, Leaf 20, Leaf 30], Nest [Leaf 40, Leaf 50, Leaf 60]]"
    by code_simp
  have bias: "tolist \<lparr>shape = [2], elems = [7, 8 :: nat]\<rparr> = Nest [Leaf 7, Leaf 8]"
    by code_simp
  from exported_entries [OF present get_model_tiny names] present names show ?thesis
    by (simp add: tiny_model_def weight bias)
qed

subsection \<open>The round trip\<close>

lemma concat_chunks: "length xs = d * sz \<Longrightarrow> concat (chunks sz d xs) = xs"
  by (induction d arbitrary: xs) auto

lemma length_chunks: "length xs = d * sz \<Longrightarrow> c \<in> set (chunks sz d xs) \<Longrightarrow> length c = sz"
proof (induction d arbitrary: xs)
  case 0
  then show ?case by simp
next
  case (Suc d)
  from Suc.prems(1) have "length (drop sz xs) = d * sz" by simp
  with Suc.IH [of "drop sz xs"] Suc.prems show ?case by auto
qed

lemma flatten_nest: "length xs = prod_list ds \<Longrightarrow> flatten (nest ds xs) = xs"
proof (induction ds arbitrary: xs)
  case Nil
  then show ?case by (cases xs) auto
next
  case (Cons d ds)
  then have len: "length xs = d * prod_list ds" by simp
  have "map flatten (map (nest ds) (chunks (prod_list ds) d xs)) = chunks (prod_list ds) d xs"
    using Cons.IH length_chunks [OF len] by (simp add: map_idI)
  then show ?case by (simp add: concat_chunks [OF len])
qed

lemma reshape_tolist: "wf_tensor t \<Longrightarrow> reshape (tolist t) (shape t) = Some t"
  by (simp add: reshape_def tolist_def wf_tensor_def flatten_nest)

text \<open>
  C3. When the file exists and \<open>get_model\<close> returns a model whose named parameters have
  distinct names, every well-formed parameter whose name contains \<^verbatim>\<open>weight\<close> or
  \<^verbatim>\<open>bias\<close> has an entry under its name in the mapping written, and reshaping that
  entry's \<open>data\<close> by that entry's \<open>shape\<close> gives back the parameter: same shape, same
  elements in the same order.
\<close>

theorem export_round_trip:
  assumes "path_exists w" and "get_model w = (out1, Inr model)"
    and "distinct (map fst (named_parameters model))"
    and "(name, param) \<in> set (named_parameters model)"
    and "str_in ''weight'' name \<or> str_in ''bias'' name"
    and "wf_tensor param"
  shows "\<exists>weights e. snd (export_weights w) = Return weights \<and> map_of weights name = Some e \<and>
           reshape (data e) (shape_list e) = Some param"
proof -
  let ?kept = "filter (\<lambda>(name, param). exported_name name) (named_parameters model)"
  let ?weights = "map (\<lambda>(name, param). (name, entry_of param)) ?kept"
  have written: "snd (export_weights w) = Return ?weights"
    using export_loop_distinct [OF assms(3), of "[]" "[]"] export_weights_Return [OF assms(1,2)]
    by simp
  have keys: "map fst ?weights = map fst ?kept"
    by (simp add: case_prod_unfold comp_def)
  have "distinct (map fst ?kept)"
    using assms(3) by (simp add: distinct_map_filter)
  then have "distinct (map fst ?weights)" by (simp only: keys)
  moreover from assms(4,5) have "(name, entry_of param) \<in> set ?weights"
    by (force simp: exported_name_def)
  ultimately have "map_of ?weights name = Some (entry_of param)" by simp
  moreover have "reshape (data (entry_of param)) (shape_list (entry_of param)) = Some param"
    using assms(6) by (simp add: entry_of_def reshape_tolist)
  ultimately show ?thesis using written by blast
qed

theorem export_round_trip_witness:
  "path_exists (module_world tiny_model) \<and>
   distinct (map fst (named_parameters tiny_model)) \<and>
   (''fc.weight'', \<lparr>shape = [2, 3], elems = [10, 20, 30, 40, 50, 60]\<rparr>) \<in> set (named_parameters tiny_model) \<and>
   str_in ''weight'' ''fc.weight'' \<and>
   wf_tensor \<lparr>shape = [2, 3], elems = [10, 20, 30, 40, 50, 60 :: nat]\<rparr> \<and>
   (\<exists>weights e. snd (export_weights (module_world tiny_model)) = Return weights \<and>
      map_of weights ''fc.weight'' = Some e \<and>
      reshape (data e) (shape_list e) = Some \<lparr>shape = [2, 3], elems = [10, 20, 30, 40, 50, 60]\<rparr>)"
proof -
  have present: "path_exists (module_world tiny_model)"
    by (simp add: module_world_def)
  have names: "distinct (map fst (named_parameters tiny_model))"
    by (simp add: tiny_model_def)
  have param: "(''fc.weight'', \<lparr>shape = [2, 3], elems = [10, 20, 30, 40, 50, 60]\<rparr>)
      \<in> set (named_parameters tiny_model)"
    by (simp add: tiny_model_def)
  have name: "str_in ''weight'' ''fc.weight'' \<or> str_in ''bias'' ''fc.weight''"
    by simp
  have wf: "wf_tensor \<lparr>shape = [2, 3], elems = [10, 20, 30, 40, 50, 60 :: nat]\<rparr>"
    by (simp add: wf_tensor_def)
  have "str_in ''weight'' ''fc.weight''" by simp
  with export_round_trip [OF present get_model_tiny names param name wf] present names param wf
  show ?thesis by blast
qed


subsection \<open>The inspector on a dict\<close>

lemma list_layers_tensors:
  assumes "\<forall>k\<in>set ks. \<exists>t. map_of d k = Some (Tensor t)"
  shows "list_layers d ks =
           (map (\<lambda>k. Print (''    - '' @ k @ '': shape '' @ str_size (shape_under d k))) ks, None)"
  using assms
  by (induction ks) (auto simp: getitem_def shape_of_def shape_under_def)

lemma infer_head_find:
  "infer_head d ks =
     (case find (has_key d) ks of
        None \<Rightarrow> ([], None)
      | Some k \<Rightarrow>
          (case shape_at d k 0 of
             Inl e \<Rightarrow> ([], Some e)
           | Inr n \<Rightarrow>
               ([Print (newline @ ''  Inferred num_classes: '' @ str_nat n @
                        '' (from '' @ k @ '')'')], None)))"
  by (induction ks) auto

lemma shape_at_first:
  assumes "map_of d k = Some (Tensor t)" and "shape t \<noteq> []"
  shows "shape_at d k 0 = Inr (hd (shape_under d k))"
  using assms
  by (simp add: shape_at_def getitem_def shape_of_def index_def shape_under_def hd_conv_nth)

lemma inspect_dict_returns_False:
  "snd (inspect_model True (Inr (Dict q d)) model_path) = Return False"
  by (simp add: inspect_model_def inspect_body_def Let_def split: prod.splits option.splits)

text \<open>
  C8. For a loaded dict whose first ten values are tensors, and in which the first
  present of the keys \<^verbatim>\<open>classifier.weight\<close>, \<^verbatim>\<open>fc.weight\<close>, \<^verbatim>\<open>head.weight\<close>, if
  any, holds a tensor with at least one dimension, the inspector prints the number of
  entries, one line with key and shape for each of the first ten entries, a line with
  the count of the others when there are more than ten, and, when one of the three keys
  is present, a line with the first dimension of its tensor as the number of classes;
  it returns False. It returns False for every loaded dict.
\<close>

theorem inspect_dict_report:
  "((\<forall>k\<in>set (take 10 (map fst d)). \<exists>t. map_of d k = Some (Tensor t)) \<and>
    (\<forall>k. find (has_key d) head_names = Some k \<longrightarrow>
       (\<exists>t. map_of d k = Some (Tensor t) \<and> shape t \<noteq> [])) \<longrightarrow>
    inspect_model True (Inr (Dict q d)) model_path =
      ([Print (''Inspecting '' @ model_path @ ''...'' @ newline),
        Print (''Type: <class '' @ quote @ q @ quote @ ''>''),
        Print (warning_sign @
          ''  This is a state_dict (saved with torch.save(model.state_dict(), ...))''),
        Print (''  Number of layers: '' @ str_nat (length d)),
        Print (newline @ ''  Layer names:'')] @
       map (\<lambda>k. Print (''    - '' @ k @ '': shape '' @ str_size (shape_under d k)))
         (take 10 (map fst d)) @
       (if 10 < length d
        then [Print (''    ... and '' @ str_nat (length d - 10) @ '' more layers'')] else []) @
       (case find (has_key d) head_names of
          None \<Rightarrow> []
        | Some k \<Rightarrow>
            [Print (newline @ ''  Inferred num_classes: '' @ str_nat (hd (shape_under d k)) @
                    '' (from '' @ k @ '')'')]) @
       [Print (newline @ warning_sign @
          ''  You need to define the model architecture to load this.''),
        Print ''   Update convert_to_onnx.py with your model definition.''],
       Return False)) \<and>
   snd (inspect_model True (Inr (Dict q d)) model_path) = Return False"
proof (intro conjI impI)
  assume a: "(\<forall>k\<in>set (take 10 (map fst d)). \<exists>t. map_of d k = Some (Tensor t)) \<and>
    (\<forall>k. find (has_key d) head_names = Some k \<longrightarrow>
       (\<exists>t. map_of d k = Some (Tensor t) \<and> shape t \<noteq> []))"
  then have listing: "list_layers d (take 10 (map fst d)) =
      (map (\<lambda>k. Print (''    - '' @ k @ '': shape '' @ str_size (shape_under d k)))
         (take 10 (map fst d)), None)"
    by (intro list_layers_tensors) blast
  have any: "(has_key d ''classifier.weight'' \<or> has_key d ''fc.weight'' \<or> has_key d ''head.weight'')
      = (find (has_key d) head_names \<noteq> None)"
    by (simp add: head_names_def)
  have heads: "(if has_key d ''classifier.weight'' \<or> has_key d ''fc.weight'' \<or>
          has_key d ''head.weight''
       then infer_head d head_names else ([], None)) =
      ((case find (has_key d) head_names of
          None \<Rightarrow> []
        | Some k \<Rightarrow>
            [Print (newline @ ''  Inferred num_classes: '' @ str_nat (hd (shape_under d k)) @
                    '' (from '' @ k @ '')'')]), None)"
  proof (cases "find (has_key d) head_names")
    case None
    with any show ?thesis by simp
  next
    case (Some k)
    with a obtain t where "map_of d k = Some (Tensor t)" "shape t \<noteq> []" by blast
    from shape_at_first [OF this] Some any show ?thesis
      by (simp add: infer_head_find)
  qed
  have report: "inspect_dict d =
      ([Print (warning_sign @
          ''  This is a state_dict (saved with torch.save(model.state_dict(), ...))''),
        Print (''  Number of layers: '' @ str_nat (length d)),
        Print (newline @ ''  Layer names:'')] @
       map (\<lambda>k. Print (''    - '' @ k @ '': shape '' @ str_size (shape_under d k)))
         (take 10 (map fst d)) @
       (if 10 < length d
        then [Print (''    ... and '' @ str_nat (length d - 10) @ '' more layers'')] else []) @
       (case find (has_key d) head_names of
          None \<Rightarrow> []
        | Some k \<Rightarrow>
            [Print (newline @ ''  Inferred num_classes: '' @ str_nat (hd (shape_under d k)) @
                    '' (from '' @ k @ '')'')]) @
       [Print (newline @ warning_sign @
          ''  You need to define the model architecture to load this.''),
        Print ''   Update convert_to_onnx.py with your model definition.''],
       None)"
    unfolding inspect_dict_def listing heads by (simp add: Let_def)
  show "inspect_model True (Inr (Dict q d)) model_path =
      ([Print (''Inspecting '' @ model_path @ ''...'' @ newline),
        Print (''Type: <class '' @ quote @ q @ quote @ ''>''),
        Print (warning_sign @
          ''  This is a state_dict (saved with torch.save(model.state_dict(), ...))''),
        Print (''  Number of layers: '' @ str_nat (length d)),
        Print (newline @ ''  Layer names:'')] @
       map (\<lambda>k. Print (''    - '' @ k @ '': shape '' @ str_size (shape_under d k)))
         (take 10 (map fst d)) @
       (if 10 < length d
        then [Print (''    ... and '' @ str_nat (length d - 10) @ '' more layers'')] else []) @
       (case find (has_key d) head_names of
          None \<Rightarrow> []
        | Some k \<Rightarrow>
            [Print (newline @ ''  Inferred num_classes: '' @ str_nat (hd (shape_under d k)) @
                    '' (from '' @ k @ '')'')]) @
       [Print (newline @ warning_sign @
          ''  You need to define the model architecture to load this.''),
        Print ''   Update convert_to_onnx.py with your model definition.''],
       Return False)"
    by (simp add: inspect_model_def inspect_body_def report Let_def str_type_def)
next
  show "snd (inspect_model True (Inr (Dict q d)) model_path) = Return False"
    by (rule inspect_dict_returns_False)
qed


theorem inspect_dict_report_witness:
  "take 10 (map fst no_layer_dict) = [''fc.weight'', ''fc.bias''] \<and>
   map_of no_layer_dict ''fc.weight'' = Some (Tensor (zeros [10, 64])) \<and>
   map_of no_layer_dict ''fc.bias'' = Some (Tensor (zeros [10])) \<and>
   find (has_key no_layer_dict) head_names = Some ''fc.weight'' \<and>
   shape_under no_layer_dict ''fc.weight'' = [10, 64] \<and>
   inspect_model True (Inr (Dict ''dict'' no_layer_dict)) ''composition_classifier.pt'' =
     ([Print (''Inspecting composition_classifier.pt...'' @ newline),
       Print (''Type: <class '' @ quote @ ''dict'' @ quote @ ''>''),
       Print (warning_sign @
         ''  This is a state_dict (saved with torch.save(model.state_dict(), ...))''),
       Print ''  Number of layers: 2'',
       Print (newline @ ''  Layer names:''),
       Print ''    - fc.weight: shape torch.Size([10, 64])'',
       Print ''    - fc.bias: shape torch.Size([10])'',
       Print (newline @ ''  Inferred num_classes: 10 (from fc.weight)''),
       Print (newline @ warning_sign @
         ''  You need to define the model architecture to load this.''),
       Print ''   Update convert_to_onnx.py with your model definition.''],
      Return False)"
proof -
  have tensors: "\<forall>k\<in>set (take 10 (map fst no_layer_dict)).
      \<exists>t. map_of no_layer_dict k = Some (Tensor t)"
    by (simp add: no_layer_dict_def)
  have found: "find (has_key no_layer_dict) head_names = Some ''fc.weight''"
    by (simp add: head_names_def has_key_def no_layer_dict_def)
  have weight: "shape_under no_layer_dict ''fc.weight'' = [10, 64]"
    by (simp add: shape_under_def no_layer_dict_def)
  have bias: "shape_under no_layer_dict ''fc.bias'' = [10]"
    by (simp add: shape_under_def no_layer_dict_def)
  have head: "\<forall>k. find (has_key no_layer_dict) head_names = Some k \<longrightarrow>
      (\<exists>t. map_of no_layer_dict k = Some (Tensor t) \<and> shape t \<noteq> [])"
    unfolding found by (simp add: no_layer_dict_def)
  have keys: "take 10 (map fst no_layer_dict) = [''fc.weight'', ''fc.bias'']"
    by (simp add: no_layer_dict_def)
  have count: "length no_layer_dict = 2"
    by (simp add: no_layer_dict_def)
  have two: "str_nat 2 = ''2''" and ten: "str_nat 10 = ''10''"
    by code_simp+
  have size2: "str_size [10, 64] = ''torch.Size([10, 64])''"
    and size1: "str_size [10] = ''torch.Size([10])''"
    by code_simp+
  from inspect_dict_report [of no_layer_dict "''dict''" "''composition_classifier.pt''"]
    tensors head
  have "inspect_model True (Inr (Dict ''dict'' no_layer_dict)) ''composition_classifier.pt'' =
      ([Print (''Inspecting '' @ ''composition_classifier.pt'' @ ''...'' @ newline),
        Print (''Type: <class '' @ quote @ ''dict'' @ quote @ ''>''),
        Print (warning_sign @
          ''  This is a state_dict (saved with torch.save(model.state_dict(), ...))''),
        Print (''  Number of layers: '' @ str_nat (length no_layer_dict)),
        Print (newline @ ''  Layer names:'')] @
       map (\<lambda>k. Print (''    - '' @ k @ '': shape '' @ str_size (shape_under no_layer_dict k)))
         (take 10 (map fst no_layer_dict)) @
       (if 10 < length no_layer_dict
        then [Print (''    ... and '' @ str_nat (length no_layer_dict - 10) @ '' more layers'')]
        else []) @
       (case find (has_key no_layer_dict) head_names of
          None \<Rightarrow> []
        | Some k \<Rightarrow>
            [Print (newline @ ''  Inferred num_classes: '' @
                    str_nat (hd (shape_under no_layer_dict k)) @ '' (from '' @ k @ '')'')]) @
       [Print (newline @ warning_sign @
          ''  You need to define the model architecture to load this.''),
        Print ''   Update convert_to_onnx.py with your model definition.''],
       Return False)"
    by blast
  then have "inspect_model True (Inr (Dict ''dict'' no_layer_dict)) ''composition_classifier.pt'' =
     ([Print (''Inspecting composition_classifier.pt...'' @ newline),
       Print (''Type: <class '' @ quote @ ''dict'' @ quote @ ''>''),
       Print (warning_sign @
         ''  This is a state_dict (saved with torch.save(model.state_dict(), ...))''),
       Print ''  Number of layers: 2'',
       Print (newline @ ''  Layer names:''),
       Print ''    - fc.weight: shape torch.Size([10, 64])'',
       Print ''    - fc.bias: shape torch.Size([10])'',
       Print (newline @ ''  Inferred num_classes: 10 (from fc.weight)''),
       Print (newline @ warning_sign @
         ''  You need to define the model architecture to load this.''),
       Print ''   Update convert_to_onnx.py with your model definition.''],
      Return False)"
    by (simp add: found weight bias keys count two ten size2 size1)
  moreover have "map_of no_layer_dict ''fc.weight'' = Some (Tensor (zeros [10, 64]))"
    and "map_of no_layer_dict ''fc.bias'' = Some (Tensor (zeros [10]))"
    by (simp_all add: no_layer_dict_def)
  ultimately show ?thesis using keys found weight by blast
qed

text \<open>
  Outside the hypotheses of C8 the branch ends in the handler of the \<^verbatim>\<open>try\<close>: a value
  that is no tensor stops the listing at its entry.
\<close>

lemma inspect_dict_non_tensor:
  "inspect_dict [(''epoch'', NonTensor m)] =
     ([Print (warning_sign @
         ''  This is a state_dict (saved with torch.save(model.state_dict(), ...))''),
       Print (''  Number of layers: '' @ str_nat 1),
       Print (newline @ ''  Layer names:'')],
      Some (AttributeError m))"
  by (simp add: inspect_dict_def getitem_def shape_of_def)


end
